theory Spec2Isabelle
  imports Main "HOL-Library.AList"
begin

section \<open>Comment confirmation and follow-up notification (django\_comments\_xtd/views.py)\<close>

text \<open>
  The module is glue code over a web framework: an ORM table of comments, a signal bus,
  a template engine and a mail backend. The embedding makes each of them explicit:
  \<^item> the table \<^verbatim>\<open>XtdComment.objects\<close>, the mail backend and the signal bus are fields of a
    state record that every view takes and returns;
  \<^item> settings and framework functions whose code is not part of the module
    (\<^verbatim>\<open>signed.dumps\<close>, \<^verbatim>\<open>signed.loads\<close>, \<^verbatim>\<open>models.get_model\<close>, the target's
    default manager, \<^verbatim>\<open>reverse\<close>, the current site, the connected signal receivers)
    are fields of an environment record;
  \<^item> an exception is the left injection of a sum; the lookups that depend on the data a
    view receives (a key of \<^verbatim>\<open>request.POST\<close>, the target model and object, the signed
    key) can raise, while the URL configuration, the template loader and the mail backend
    are taken to work;
  \<^item> a rendered template is kept symbolic: the template's name with its context.
\<close>

subsection \<open>Data\<close>

datatype exn =
    Http404
  | ValueError
  | BadSignature
  | KeyError
  | AttributeError
  | TypeError
  | DoesNotExist
  | MultipleObjectsReturned

text \<open>\<^verbatim>\<open>comment.user\<close> is \<^verbatim>\<open>None\<close>, a \<^verbatim>\<open>User\<close> or the \<^verbatim>\<open>AnonymousUser\<close>; only a \<^verbatim>\<open>User\<close>
  answers \<^verbatim>\<open>is_authenticated()\<close> with \<^verbatim>\<open>True\<close>.\<close>

datatype user = User string | AnonymousUser

fun is_authenticated :: "user \<Rightarrow> bool" where
  "is_authenticated (User name) = True"
| "is_authenticated AnonymousUser = False"

datatype content_type = ContentType (app_label: string) (model: string)

type_synonym datetime = int

text \<open>The fields of a comment that the module reads or writes. A \<^verbatim>\<open>TmpXtdComment\<close> is a
  dictionary of these fields; an \<^verbatim>\<open>XtdComment\<close> is a saved row, which also has a primary
  key (\<^verbatim>\<open>id\<close> in the source).\<close>

record TmpXtdComment =
  content_type :: content_type
  object_pk :: string
  user :: "user option"
  user_name :: string
  user_email :: string
  comment_text :: string
  submit_date :: datetime
  is_public :: bool
  followup :: bool

record XtdComment = TmpXtdComment +
  comment_id :: nat

type_synonym request_data = "(string \<times> string) list"

record request =
  POST :: request_data
  GET :: request_data

datatype target = Target string

datatype model_class = ModelClass string string

text \<open>What a signal receiver may answer; \<^verbatim>\<open>response == False\<close> is Python's equality, under
  which the integer \<^verbatim>\<open>0\<close> equals \<^verbatim>\<open>False\<close>.\<close>

datatype py_value = PyNone | PyBool bool | PyInt int | PyStr string

fun eq_False :: "py_value \<Rightarrow> bool" where
  "eq_False (PyBool b) = (\<not> b)"
| "eq_False (PyInt i) = (i = 0)"
| "eq_False PyNone = False"
| "eq_False (PyStr s) = False"

datatype template_context =
    ConfirmationContext TmpXtdComment target string string string
  | FollowupContext string XtdComment target string

datatype rendered = Render string template_context

record email =
  subject :: string
  body :: rendered
  from_email :: string
  recipients :: "string list"
  alternatives :: "(rendered \<times> string) list"

record world =
  rows :: "XtdComment list"
  next_id :: nat
  outbox :: "email list"
  signals_sent :: "(TmpXtdComment \<times> request) list"

record env =
  COMMENTS_XTD_SALT :: string
  COMMENTS_XTD_CONFIRM_EMAIL :: bool
  DEFAULT_FROM_EMAIL :: string
  current_site :: string
  reverse :: "string \<Rightarrow> string list \<Rightarrow> string"
  signed_dumps :: "TmpXtdComment \<Rightarrow> string \<Rightarrow> string"
  signed_loads :: "string \<Rightarrow> string \<Rightarrow> exn + TmpXtdComment"
  get_model :: "string list \<Rightarrow> exn + model_class option"
  objects_get :: "model_class \<Rightarrow> string \<Rightarrow> exn + target"
  receivers :: "(TmpXtdComment \<Rightarrow> request \<Rightarrow> py_value) list"

datatype http_response =
    Redirect XtdComment
  | RenderToResponse string TmpXtdComment

subsection \<open>The deduplication check and the creation of a comment\<close>

text \<open>\<^verbatim>\<open>_comment_exists\<close>: the count of the rows that pass the three-field filter is
  positive. The argument is any comment, saved or temporary.\<close>

definition comment_exists :: "world \<Rightarrow> ('a TmpXtdComment_scheme) \<Rightarrow> bool" where
  "comment_exists w comment =
     (length (filter (\<lambda>r. user_name r = user_name comment
                         \<and> user_email r = user_email comment
                         \<and> submit_date r = submit_date comment) (rows w)) > 0)"

text \<open>\<^verbatim>\<open>_create_comment\<close>: a row with the temporary comment's fields, \<^verbatim>\<open>is_public\<close>
  overwritten with \<^verbatim>\<open>True\<close>; \<^verbatim>\<open>save()\<close> inserts it under the next primary key.\<close>

definition create_comment :: "world \<Rightarrow> TmpXtdComment \<Rightarrow> XtdComment \<times> world" where
  "create_comment w tmp_comment =
     (let comment = \<lparr>content_type = content_type tmp_comment,
                     object_pk = object_pk tmp_comment,
                     user = user tmp_comment,
                     user_name = user_name tmp_comment,
                     user_email = user_email tmp_comment,
                     comment_text = comment_text tmp_comment,
                     submit_date = submit_date tmp_comment,
                     is_public = True,
                     followup = followup tmp_comment,
                     comment_id = next_id w\<rparr>
      in (comment, w\<lparr>rows := rows w @ [comment], next_id := Suc (next_id w)\<rparr>))"

subsection \<open>The confirmation request\<close>

definition default_text_template :: string where
  "default_text_template = ''django_comments_xtd/email_confirmation_request.txt''"

definition default_html_template :: string where
  "default_html_template = ''django_comments_xtd/email_confirmation_request.html''"

text \<open>\<^verbatim>\<open>send_email_confirmation_request\<close>: one message with a text body and an HTML
  alternative, both rendered from the same context, to the address the comment carries.\<close>

definition send_email_confirmation_request ::
  "env \<Rightarrow> world \<Rightarrow> TmpXtdComment \<Rightarrow> target \<Rightarrow> string \<Rightarrow> string \<Rightarrow> string \<Rightarrow> world" where
  "send_email_confirmation_request e w comment tgt key text_template html_template =
     (let confirmation_url = reverse e ''comments-xtd-confirm'' [key];
          text_message = Render text_template
            (ConfirmationContext comment tgt confirmation_url (DEFAULT_FROM_EMAIL e)
               (current_site e));
          html_message = Render html_template
            (ConfirmationContext comment tgt confirmation_url (DEFAULT_FROM_EMAIL e)
               (current_site e));
          message = \<lparr>subject = ''comment confirmation request'',
                     body = text_message,
                     from_email = DEFAULT_FROM_EMAIL e,
                     recipients = [user_email comment],
                     alternatives = [(html_message, ''text/html'')]\<rparr>
      in w\<lparr>outbox := outbox w @ [message]\<rparr>)"

subsection \<open>The notification of followers\<close>

text \<open>The query of \<^verbatim>\<open>notify_comment_followers\<close>:
  \<^verbatim>\<open>filter(object_pk=..., is_public=True, followup=True).exclude(id__exact=comment.id)\<close>.
  The query names no order, so the rows come in the default order of the model, which
  \<^verbatim>\<open>XtdComment\<close> inherits from the framework's comment model: by \<^verbatim>\<open>submit_date\<close>,
  ascending. The database fixes no order among rows of the same date; the sort used here
  leaves them in the order of the table, and no theorem below depends on that.\<close>

definition previous_comments :: "world \<Rightarrow> XtdComment \<Rightarrow> XtdComment list" where
  "previous_comments w comment =
     sort_key submit_date
       (filter (\<lambda>r. comment_id r \<noteq> comment_id comment)
          (filter (\<lambda>r. object_pk r = object_pk comment \<and> is_public r \<and> followup r)
             (rows w)))"

text \<open>The dictionary \<^verbatim>\<open>followers\<close>, from address to name, as an association list
  with one entry per key: a later comment of the same address overwrites the name. The
  list keeps the keys in the order of their first insertion; Python fixes no order for
  the dictionary's iteration, so no general statement below depends on it.\<close>

definition followers_of :: "XtdComment list \<Rightarrow> (string \<times> string) list" where
  "followers_of instances =
     fold (\<lambda>instance followers.
             AList.update (user_email instance) (user_name instance) followers)
       instances []"

definition followup_mail :: "env \<Rightarrow> XtdComment \<Rightarrow> target \<Rightarrow> string \<times> string \<Rightarrow> email" where
  "followup_mail e comment tgt entry =
     (case entry of (email, name) \<Rightarrow>
        \<lparr>subject = ''new comment posted'',
         body = Render ''django_comments_xtd/email_followup_comment.txt''
                  (FollowupContext name comment tgt (current_site e)),
         from_email = DEFAULT_FROM_EMAIL e,
         recipients = [email],
         alternatives = []\<rparr>)"

text \<open>\<^verbatim>\<open>notify_comment_followers\<close>. \<^verbatim>\<open>get_model\<close> answers \<^verbatim>\<open>None\<close> for an unknown
  model, and the attribute access on \<^verbatim>\<open>None\<close> raises; the manager's \<^verbatim>\<open>get\<close> raises when
  the object is gone. Both happen before the first message is sent.\<close>

definition notify_comment_followers :: "env \<Rightarrow> world \<Rightarrow> XtdComment \<Rightarrow> (exn + unit) \<times> world" where
  "notify_comment_followers e w comment =
     (let followers = followers_of (previous_comments w comment) in
      case get_model e [app_label (content_type comment), model (content_type comment)] of
        Inl err \<Rightarrow> (Inl err, w)
      | Inr None \<Rightarrow> (Inl AttributeError, w)
      | Inr (Some m) \<Rightarrow>
          (case objects_get e m (object_pk comment) of
             Inl err \<Rightarrow> (Inl err, w)
           | Inr tgt \<Rightarrow>
               (Inr (), w\<lparr>outbox := outbox w @ map (followup_mail e comment tgt) followers\<rparr>)))"

subsection \<open>The signal handler\<close>

text \<open>Python's \<^verbatim>\<open>str.split(sep)\<close> for a separator of one character.\<close>

fun split_on :: "char \<Rightarrow> string \<Rightarrow> string list" where
  "split_on sep [] = [[]]"
| "split_on sep (c # cs) =
     (if c = sep then [] # split_on sep cs
      else (case split_on sep cs of
              [] \<Rightarrow> [[c]]
            | part # parts \<Rightarrow> (c # part) # parts))"

text \<open>\<^verbatim>\<open>request.POST[name]\<close> raises when the name is missing.\<close>

definition post_item :: "request \<Rightarrow> string \<Rightarrow> exn + string" where
  "post_item req name = (case map_of (POST req) name of None \<Rightarrow> Inl KeyError | Some v \<Rightarrow> Inr v)"

text \<open>\<^verbatim>\<open>on_comment_was_posted\<close>. The handler returns nothing; the model returns whether it
  raised, the value it assigned to \<^verbatim>\<open>comment.xtd_comment\<close> (if it did) and the new state.
  The test \<^verbatim>\<open>comment.user and comment.user.is_authenticated()\<close> is false for \<^verbatim>\<open>None\<close>.\<close>

definition on_comment_was_posted ::
  "env \<Rightarrow> world \<Rightarrow> TmpXtdComment \<Rightarrow> request \<Rightarrow> (exn + unit) \<times> XtdComment option \<times> world" where
  "on_comment_was_posted e w comment req =
     (if (case user comment of None \<Rightarrow> False | Some u \<Rightarrow> is_authenticated u)
         \<or> \<not> COMMENTS_XTD_CONFIRM_EMAIL e
      then
        (if \<not> comment_exists w comment then
           (case create_comment w comment of (new_comment, w1) \<Rightarrow>
              (case notify_comment_followers e w1 new_comment of
                 (outcome, w2) \<Rightarrow> (outcome, Some new_comment, w2)))
         else (Inr (), None, w))
      else
        (case post_item req ''content_type'' of
           Inl err \<Rightarrow> (Inl err, None, w)
         | Inr ctype \<Rightarrow>
        (case post_item req ''object_pk'' of
           Inl err \<Rightarrow> (Inl err, None, w)
         | Inr pk \<Rightarrow>
        (case get_model e (split_on CHR ''.'' ctype) of
           Inl err \<Rightarrow> (Inl err, None, w)
         | Inr None \<Rightarrow> (Inl AttributeError, None, w)
         | Inr (Some m) \<Rightarrow>
        (case objects_get e m pk of
           Inl err \<Rightarrow> (Inl err, None, w)
         | Inr tgt \<Rightarrow>
             (let key = signed_dumps e comment (COMMENTS_XTD_SALT e)
              in (Inr (), None,
                  send_email_confirmation_request e w comment tgt key
                    default_text_template default_html_template)))))))"

subsection \<open>The confirmation view\<close>

text \<open>The loop over the receivers' responses: true when some response equals \<^verbatim>\<open>False\<close>.\<close>

fun discarded :: "py_value list \<Rightarrow> bool" where
  "discarded [] = False"
| "discarded (response # responses) = (if eq_False response then True else discarded responses)"

text \<open>\<^verbatim>\<open>confirm\<close>. The signal is sent to every receiver before the responses are looked at;
  the state records that it was sent.\<close>

definition confirm ::
  "env \<Rightarrow> world \<Rightarrow> request \<Rightarrow> string \<Rightarrow> string \<Rightarrow> (exn + http_response) \<times> world" where
  "confirm e w req key template_discarded =
     (case signed_loads e key (COMMENTS_XTD_SALT e) of
        Inl err \<Rightarrow>
          (if err = ValueError \<or> err = BadSignature then (Inl Http404, w) else (Inl err, w))
      | Inr tmp_comment \<Rightarrow>
          (if comment_exists w tmp_comment then (Inl Http404, w)
           else
             (let w1 = w\<lparr>signals_sent := signals_sent w @ [(tmp_comment, req)]\<rparr>;
                  responses = map (\<lambda>receiver. receiver tmp_comment req) (receivers e)
              in if discarded responses
                 then (Inr (RenderToResponse template_discarded tmp_comment), w1)
                 else
                   (case create_comment w1 tmp_comment of (comment, w2) \<Rightarrow>
                      (case notify_comment_followers e w2 comment of
                         (Inl err, w3) \<Rightarrow> (Inl err, w3)
                       | (Inr u, w3) \<Rightarrow> (Inr (Redirect comment), w3))))))"

subsection \<open>Vocabulary of the specification\<close>

text \<open>The condition under which a comment is published at once, in the words of the
  specification: the comment's user is set and authenticated, or the setting
  \<^verbatim>\<open>COMMENTS_XTD_CONFIRM_EMAIL\<close> is \<^verbatim>\<open>False\<close>.\<close>

definition publish_condition :: "env \<Rightarrow> TmpXtdComment \<Rightarrow> bool" where
  "publish_condition e comment \<longleftrightarrow>
     (user comment \<noteq> None \<and> is_authenticated (the (user comment)))
     \<or> COMMENTS_XTD_CONFIRM_EMAIL e = False"

text \<open>The two kinds of message the module sends are told apart by their subject.\<close>

definition confirmation_requests :: "email list \<Rightarrow> email list" where
  "confirmation_requests mails = filter (\<lambda>m. subject m = ''comment confirmation request'') mails"

definition followup_mails :: "email list \<Rightarrow> email list" where
  "followup_mails mails = filter (\<lambda>m. subject m = ''new comment posted'') mails"

text \<open>The confirmation request that a held comment is expected to cause: addressed to
  the comment's own address, with the URL that \<^verbatim>\<open>reverse\<close> builds from the signed key.\<close>

definition confirmation_mail :: "env \<Rightarrow> TmpXtdComment \<Rightarrow> target \<Rightarrow> email" where
  "confirmation_mail e comment tgt =
     \<lparr>subject = ''comment confirmation request'',
      body = Render default_text_template
        (ConfirmationContext comment tgt
           (reverse e ''comments-xtd-confirm'' [signed_dumps e comment (COMMENTS_XTD_SALT e)])
           (DEFAULT_FROM_EMAIL e) (current_site e)),
      from_email = DEFAULT_FROM_EMAIL e,
      recipients = [user_email comment],
      alternatives = [(Render default_html_template
        (ConfirmationContext comment tgt
           (reverse e ''comments-xtd-confirm'' [signed_dumps e comment (COMMENTS_XTD_SALT e)])
           (DEFAULT_FROM_EMAIL e) (current_site e)), ''text/html'')]\<rparr>"


subsection \<open>Example data\<close>

text \<open>A site with comments on two models whose primary keys both start at 1: Bob follows
  photo 1, Carol follows blog entry 1. Alice posts anonymously on blog entry 1, Dave posts
  there as an authenticated user.\<close>

definition alice_tmp :: TmpXtdComment where
  "alice_tmp = \<lparr>content_type = ContentType ''blog'' ''entry'', object_pk = ''1'',
      user = None, user_name = ''alice'', user_email = ''alice@example.org'',
      comment_text = ''first'', submit_date = 1000, is_public = False, followup = True\<rparr>"

definition dave_tmp :: TmpXtdComment where
  "dave_tmp = \<lparr>content_type = ContentType ''blog'' ''entry'', object_pk = ''1'',
      user = Some (User ''dave''), user_name = ''dave'', user_email = ''dave@example.org'',
      comment_text = ''second'', submit_date = 2000, is_public = False, followup = False\<rparr>"

definition bob_row :: XtdComment where
  "bob_row = \<lparr>content_type = ContentType ''photos'' ''photo'', object_pk = ''1'',
      user = None, user_name = ''bob'', user_email = ''bob@example.org'',
      comment_text = ''nice photo'', submit_date = 10, is_public = True, followup = True,
      comment_id = 1\<rparr>"

definition carol_row :: XtdComment where
  "carol_row = \<lparr>content_type = ContentType ''blog'' ''entry'', object_pk = ''1'',
      user = None, user_name = ''carol'', user_email = ''carol@example.org'',
      comment_text = ''nice entry'', submit_date = 20, is_public = True, followup = True,
      comment_id = 2\<rparr>"

definition dave_row :: XtdComment where
  "dave_row = \<lparr>content_type = ContentType ''blog'' ''entry'', object_pk = ''1'',
      user = Some (User ''dave''), user_name = ''dave'', user_email = ''dave@example.org'',
      comment_text = ''second'', submit_date = 2000, is_public = True, followup = False,
      comment_id = 3\<rparr>"

definition alice_row :: XtdComment where
  "alice_row = \<lparr>content_type = ContentType ''blog'' ''entry'', object_pk = ''1'',
      user = None, user_name = ''alice'', user_email = ''alice@example.org'',
      comment_text = ''first'', submit_date = 1000, is_public = True, followup = True,
      comment_id = 3\<rparr>"

definition blog_world :: world where
  "blog_world = \<lparr>rows = [carol_row], next_id = 3, outbox = [], signals_sent = []\<rparr>"

definition confirmed_world :: world where
  "confirmed_world = \<lparr>rows = [carol_row, alice_row], next_id = 4,
      outbox = [], signals_sent = []\<rparr>"

definition mixed_world :: world where
  "mixed_world = \<lparr>rows = [bob_row, carol_row, alice_row], next_id = 4,
      outbox = [], signals_sent = []\<rparr>"

definition blog_request :: request where
  "blog_request = \<lparr>POST = [(''content_type'', ''blog.entry''), (''object_pk'', ''1'')],
      GET = []\<rparr>"

definition site_env :: env where
  "site_env = \<lparr>COMMENTS_XTD_SALT = ''salt'',
      COMMENTS_XTD_CONFIRM_EMAIL = True,
      DEFAULT_FROM_EMAIL = ''site@example.org'',
      current_site = ''example.org'',
      reverse = (\<lambda>name args. ''/comments/confirm/'' @ concat args),
      signed_dumps = (\<lambda>comment salt. user_name comment @ salt),
      signed_loads = (\<lambda>key salt. if key = ''alice'' @ salt then Inr alice_tmp
                                    else Inl BadSignature),
      get_model = (\<lambda>args. if args = [''blog'', ''entry'']
                             then Inr (Some (ModelClass ''blog'' ''entry'')) else Inr None),
      objects_get = (\<lambda>m pk. if pk = ''1'' then Inr (Target ''entry 1'')
                               else Inl DoesNotExist),
      receivers = [\<lambda>comment req. PyNone]\<rparr>"

definition moderated_env :: env where
  "moderated_env = site_env\<lparr>receivers := [\<lambda>comment req. PyNone, \<lambda>comment req. PyBool False]\<rparr>"

lemmas example_defs = alice_tmp_def dave_tmp_def bob_row_def carol_row_def dave_row_def
  blog_world_def blog_request_def site_env_def moderated_env_def
  alice_row_def confirmed_world_def mixed_world_def

section \<open>Properties\<close>

subsection \<open>Auxiliary facts\<close>

lemma comment_exists_Bex:
  "comment_exists w comment \<longleftrightarrow>
     (\<exists>r\<in>set (rows w). user_name r = user_name comment
        \<and> user_email r = user_email comment \<and> submit_date r = submit_date comment)"
  unfolding comment_exists_def by (auto simp: filter_empty_conv)

lemma create_comment_rows:
  "rows (snd (create_comment w tmp)) = rows w @ [fst (create_comment w tmp)]"
  by (simp add: create_comment_def Let_def)

lemma create_comment_frame:
  "outbox (snd (create_comment w tmp)) = outbox w"
  "signals_sent (snd (create_comment w tmp)) = signals_sent w"
  "next_id (snd (create_comment w tmp)) = Suc (next_id w)"
  by (simp_all add: create_comment_def Let_def)

lemma create_comment_fields:
  "is_public (fst (create_comment w tmp))"
  "TmpXtdComment.truncate (fst (create_comment w tmp)) = tmp\<lparr>is_public := True\<rparr>"
  "comment_id (fst (create_comment w tmp)) = next_id w"
  by (simp_all add: create_comment_def Let_def TmpXtdComment.truncate_def)

lemma fold_update_keys:
  "set (map fst (fold (\<lambda>instance followers.
             AList.update (user_email instance) (user_name instance) followers) xs acc))
    = set (map fst acc) \<union> user_email ` set xs"
  by (induction xs arbitrary: acc) (auto simp: AList.dom_update)

lemma fold_update_distinct:
  "distinct (map fst acc) \<Longrightarrow> distinct (map fst (fold (\<lambda>instance followers.
             AList.update (user_email instance) (user_name instance) followers) xs acc))"
  by (induction xs arbitrary: acc) (auto simp: AList.distinct_update)

lemma followers_of_keys: "set (map fst (followers_of xs)) = user_email ` set xs"
  unfolding followers_of_def by (simp add: fold_update_keys del: set_map)

lemma followers_of_distinct: "distinct (map fst (followers_of xs))"
  unfolding followers_of_def by (rule fold_update_distinct) simp

lemma previous_comments_set:
  "set (previous_comments w c) =
     {r \<in> set (rows w). object_pk r = object_pk c \<and> is_public r \<and> followup r
        \<and> comment_id r \<noteq> comment_id c}"
  by (auto simp: previous_comments_def)

lemma notify_rows:
  "rows (snd (notify_comment_followers e w c)) = rows w"
  "next_id (snd (notify_comment_followers e w c)) = next_id w"
  "signals_sent (snd (notify_comment_followers e w c)) = signals_sent w"
  by (simp_all add: notify_comment_followers_def Let_def split: sum.splits option.splits)

lemma notify_outbox:
  "\<exists>ms. outbox (snd (notify_comment_followers e w c)) = outbox w @ ms
     \<and> (\<forall>m\<in>set ms. subject m = ''new comment posted'')"
  by (auto simp: notify_comment_followers_def Let_def followup_mail_def
           split: sum.splits option.splits)

lemma notify_resolved:
  assumes "get_model e [app_label (content_type c), model (content_type c)] = Inr (Some m)"
    and "objects_get e m (object_pk c) = Inr tgt"
  shows "notify_comment_followers e w c =
     (Inr (), w\<lparr>outbox := outbox w @
        map (followup_mail e c tgt) (followers_of (previous_comments w c))\<rparr>)"
  using assms by (simp add: notify_comment_followers_def Let_def)

lemma confirmation_requests_append:
  "confirmation_requests (xs @ ys) = confirmation_requests xs @ confirmation_requests ys"
  by (simp add: confirmation_requests_def)

lemma followup_mails_append:
  "followup_mails (xs @ ys) = followup_mails xs @ followup_mails ys"
  by (simp add: followup_mails_def)

lemma no_confirmation_among_followups:
  "\<forall>m\<in>set ms. subject m = ''new comment posted'' \<Longrightarrow> confirmation_requests ms = []"
  by (auto simp: confirmation_requests_def filter_empty_conv)

lemma notify_no_confirmation:
  "confirmation_requests (outbox (snd (notify_comment_followers e w c)))
     = confirmation_requests (outbox w)"
  using notify_outbox[of e w c]
  by (auto simp: confirmation_requests_append no_confirmation_among_followups)

lemma publish_condition_code:
  "publish_condition e comment \<longleftrightarrow>
     (case user comment of None \<Rightarrow> False | Some u \<Rightarrow> is_authenticated u)
       \<or> \<not> COMMENTS_XTD_CONFIRM_EMAIL e"
  by (simp add: publish_condition_def split: option.splits)

lemma hold_branch:
  assumes "\<not> publish_condition e comment"
  shows "on_comment_was_posted e w comment req =
     (case post_item req ''content_type'' of
           Inl err \<Rightarrow> (Inl err, None, w)
         | Inr ctype \<Rightarrow>
        (case post_item req ''object_pk'' of
           Inl err \<Rightarrow> (Inl err, None, w)
         | Inr pk \<Rightarrow>
        (case get_model e (split_on CHR ''.'' ctype) of
           Inl err \<Rightarrow> (Inl err, None, w)
         | Inr None \<Rightarrow> (Inl AttributeError, None, w)
         | Inr (Some m) \<Rightarrow>
        (case objects_get e m pk of
           Inl err \<Rightarrow> (Inl err, None, w)
         | Inr tgt \<Rightarrow>
             (Inr (), None, w\<lparr>outbox := outbox w @ [confirmation_mail e comment tgt]\<rparr>)))))"
  using assms unfolding publish_condition_code on_comment_was_posted_def
  by (simp add: send_email_confirmation_request_def confirmation_mail_def Let_def
           split: sum.splits option.splits)

lemma publish_branch:
  assumes "publish_condition e comment"
  shows "on_comment_was_posted e w comment req =
     (if comment_exists w comment then (Inr (), None, w)
      else (fst (notify_comment_followers e (snd (create_comment w comment))
                  (fst (create_comment w comment))),
            Some (fst (create_comment w comment)),
            snd (notify_comment_followers e (snd (create_comment w comment))
                  (fst (create_comment w comment)))))"
  using assms unfolding publish_condition_code on_comment_was_posted_def
  by (simp add: split_beta)

lemma hold_outcome:
  assumes "\<not> publish_condition e comment"
    and "on_comment_was_posted e w comment req = (outcome, attr, w')"
  shows "attr = None"
    and "rows w' = rows w"
    and "next_id w' = next_id w"
    and "signals_sent w' = signals_sent w"
    and "followup_mails (outbox w') = followup_mails (outbox w)"
    and "outcome \<noteq> Inr () \<longrightarrow> w' = w"
  using assms(2) unfolding hold_branch[OF assms(1)]
  by (auto simp: followup_mails_append followup_mails_def confirmation_mail_def
           split: sum.splits option.splits)

lemma hold_resolved:
  assumes "\<not> publish_condition e comment"
    and "post_item req ''content_type'' = Inr ctype"
    and "post_item req ''object_pk'' = Inr pk"
    and "get_model e (split_on CHR ''.'' ctype) = Inr (Some m)"
    and "objects_get e m pk = Inr tgt"
  shows "on_comment_was_posted e w comment req =
     (Inr (), None, w\<lparr>outbox := outbox w @ [confirmation_mail e comment tgt]\<rparr>)"
  unfolding hold_branch[OF assms(1)] using assms(2-) by simp

lemma publish_outcome:
  assumes "publish_condition e comment"
    and "on_comment_was_posted e w comment req = (outcome, attr, w')"
  shows "confirmation_requests (outbox w') = confirmation_requests (outbox w)"
    and "comment_exists w comment \<longrightarrow> outcome = Inr () \<and> attr = None \<and> w' = w"
    and "\<not> comment_exists w comment \<longrightarrow>
           attr = Some (fst (create_comment w comment))
           \<and> rows w' = rows w @ [fst (create_comment w comment)]"
  using assms(2) unfolding publish_branch[OF assms(1)]
  by (auto simp: notify_no_confirmation notify_rows create_comment_rows create_comment_frame
           split: if_splits)

lemma not_discarded_iff:
  "\<not> discarded responses \<longleftrightarrow> (\<forall>response\<in>set responses. \<not> eq_False response)"
  by (induction responses) auto

lemma alice_held:
  "on_comment_was_posted site_env blog_world alice_tmp blog_request =
     (Inr (), None,
      blog_world\<lparr>outbox := [confirmation_mail site_env alice_tmp (Target ''entry 1'')]\<rparr>)"
  by (simp add: example_defs on_comment_was_posted_def post_item_def
        send_email_confirmation_request_def confirmation_mail_def Let_def)

lemma dave_published:
  "on_comment_was_posted site_env blog_world dave_tmp blog_request =
     (Inr (), Some dave_row,
      blog_world\<lparr>rows := [carol_row, dave_row], next_id := 4,
        outbox := [followup_mail site_env dave_row (Target ''entry 1'')
                     (''carol@example.org'', ''carol'')]\<rparr>)"
  by (simp add: example_defs on_comment_was_posted_def comment_exists_def create_comment_def
        notify_comment_followers_def previous_comments_def followers_of_def Let_def)









text \<open>When the target resolves, \<^verbatim>\<open>notify_comment_followers\<close> sends one message per
  address, each address once, and the addresses are those of the public rows that asked
  for follow-ups, carry the comment's \<^verbatim>\<open>object_pk\<close> and are not the comment itself. The
  content type of a row plays no part.\<close>

lemma notify_one_mail_per_address:
  assumes "get_model e [app_label (content_type c), model (content_type c)] = Inr (Some m)"
    and "objects_get e m (object_pk c) = Inr tgt"
  shows "\<exists>addresses.
      map recipients (drop (length (outbox w)) (outbox (snd (notify_comment_followers e w c))))
        = map (\<lambda>address. [address]) addresses
    \<and> distinct addresses
    \<and> set addresses = user_email ` {r \<in> set (rows w). object_pk r = object_pk c
         \<and> is_public r \<and> followup r \<and> comment_id r \<noteq> comment_id c}"
proof -
  let ?fs = "followers_of (previous_comments w c)"
  have "map recipients (drop (length (outbox w)) (outbox (snd (notify_comment_followers e w c))))
      = map (\<lambda>address. [address]) (map fst ?fs)"
    by (simp add: notify_resolved[OF assms] followup_mail_def split_beta)
  moreover have "distinct (map fst ?fs)"
    by (rule followers_of_distinct)
  moreover have "set (map fst ?fs) = user_email ` {r \<in> set (rows w). object_pk r = object_pk c
         \<and> is_public r \<and> followup r \<and> comment_id r \<noteq> comment_id c}"
    by (simp only: followers_of_keys previous_comments_set)
  ultimately show ?thesis by blast
qed

subsection \<open>The signal handler chooses between publishing and holding\<close>

text \<open>
  Claim C1. \<^verbatim>\<open>on_comment_was_posted\<close> takes the publish path exactly when the comment's user
  is set and authenticated or \<^verbatim>\<open>COMMENTS_XTD_CONFIRM_EMAIL\<close> is \<^verbatim>\<open>False\<close>, and the hold path
  in every other case. The two paths are told apart by what they do. Under the condition
  no confirmation request is sent, and the comment is stored as a new row unless the
  deduplication check finds it. Otherwise no row is stored and no follow-up is sent; the
  handler either raises from a lookup of the target and changes nothing, or, when the
  request names a target that resolves, returns having sent the confirmation request.
  So a new row implies the condition, and a new confirmation request implies its negation.
\<close>

theorem on_comment_was_posted_paths:
  assumes "on_comment_was_posted e w comment req = (outcome, attr, w')"
  shows "(publish_condition e comment \<longrightarrow>
            confirmation_requests (outbox w') = confirmation_requests (outbox w)
            \<and> (comment_exists w comment \<longrightarrow> w' = w)
            \<and> (\<not> comment_exists w comment \<longrightarrow>
                 rows w' = rows w @ [fst (create_comment w comment)]))
       \<and> (\<not> publish_condition e comment \<longrightarrow>
            rows w' = rows w
            \<and> followup_mails (outbox w') = followup_mails (outbox w)
            \<and> (outcome \<noteq> Inr () \<longrightarrow> w' = w)
            \<and> (post_item req ''content_type'' = Inr ctype
                 \<and> post_item req ''object_pk'' = Inr pk
                 \<and> get_model e (split_on CHR ''.'' ctype) = Inr (Some m)
                 \<and> objects_get e m pk = Inr tgt
               \<longrightarrow> outcome = Inr ()
                   \<and> outbox w' = outbox w @ [confirmation_mail e comment tgt]))
       \<and> (rows w' \<noteq> rows w \<longrightarrow> publish_condition e comment)
       \<and> (confirmation_requests (outbox w') \<noteq> confirmation_requests (outbox w)
            \<longrightarrow> \<not> publish_condition e comment)"
proof -
  have pub: "publish_condition e comment \<longrightarrow>
            confirmation_requests (outbox w') = confirmation_requests (outbox w)
            \<and> (comment_exists w comment \<longrightarrow> w' = w)
            \<and> (\<not> comment_exists w comment \<longrightarrow>
                 rows w' = rows w @ [fst (create_comment w comment)])"
    using publish_outcome[OF _ assms] by blast
  have hold: "\<not> publish_condition e comment \<longrightarrow>
            rows w' = rows w
            \<and> followup_mails (outbox w') = followup_mails (outbox w)
            \<and> (outcome \<noteq> Inr () \<longrightarrow> w' = w)"
    using hold_outcome[OF _ assms] by blast
  have sent: "\<not> publish_condition e comment \<longrightarrow>
            post_item req ''content_type'' = Inr ctype
                 \<and> post_item req ''object_pk'' = Inr pk
                 \<and> get_model e (split_on CHR ''.'' ctype) = Inr (Some m)
                 \<and> objects_get e m pk = Inr tgt
               \<longrightarrow> outcome = Inr ()
                   \<and> outbox w' = outbox w @ [confirmation_mail e comment tgt]"
    using hold_resolved[of e comment req ctype pk m tgt w] assms by auto
  from pub hold sent show ?thesis by blast
qed

theorem on_comment_was_posted_paths_witness:
  "\<not> publish_condition site_env alice_tmp
   \<and> rows blog_world = [carol_row]
   \<and> outbox blog_world @ [confirmation_mail site_env alice_tmp (Target ''entry 1'')]
       = [confirmation_mail site_env alice_tmp (Target ''entry 1'')]
   \<and> publish_condition site_env dave_tmp
   \<and> \<not> comment_exists blog_world dave_tmp
   \<and> rows blog_world @ [fst (create_comment blog_world dave_tmp)] = [carol_row, dave_row]
   \<and> confirmation_requests (outbox blog_world) = []"
proof -
  have held: "\<not> publish_condition site_env alice_tmp"
    by (simp add: publish_condition_def example_defs)
  have published: "publish_condition site_env dave_tmp"
    by (simp add: publish_condition_def example_defs)
  have fresh: "\<not> comment_exists blog_world dave_tmp"
    by (simp add: comment_exists_def example_defs)
  have lookups: "post_item blog_request ''content_type'' = Inr ''blog.entry''
      \<and> post_item blog_request ''object_pk'' = Inr ''1''
      \<and> get_model site_env (split_on CHR ''.'' ''blog.entry'')
           = Inr (Some (ModelClass ''blog'' ''entry''))
      \<and> objects_get site_env (ModelClass ''blog'' ''entry'') ''1'' = Inr (Target ''entry 1'')"
    by (simp add: post_item_def example_defs)
  from on_comment_was_posted_paths[OF alice_held, of "''blog.entry''" "''1''"
         "ModelClass ''blog'' ''entry''" "Target ''entry 1''"]
       on_comment_was_posted_paths[OF dave_published]
       held published fresh lookups
  show ?thesis
    by (simp add: blog_world_def confirmation_requests_def)
qed

subsection \<open>The confirmation view\<close>



text \<open>
  Claim C3. When \<^verbatim>\<open>signed.loads\<close> raises \<^verbatim>\<open>ValueError\<close> or \<^verbatim>\<open>BadSignature\<close> for the key,
  \<^verbatim>\<open>confirm\<close> raises \<^verbatim>\<open>Http404\<close> and the state is the one it started from: no comment is
  created.
\<close>

theorem confirm_bad_key:
  assumes "signed_loads e key (COMMENTS_XTD_SALT e) = Inl err"
    and "err = ValueError \<or> err = BadSignature"
  shows "confirm e w req key template_discarded = (Inl Http404, w)"
  using assms by (auto simp: confirm_def)

theorem confirm_bad_key_witness:
  "signed_loads site_env ''forged'' (COMMENTS_XTD_SALT site_env) = Inl BadSignature
   \<and> confirm site_env blog_world blog_request ''forged'' ''discarded.html''
       = (Inl Http404, blog_world)"
proof -
  have bad: "signed_loads site_env ''forged'' (COMMENTS_XTD_SALT site_env) = Inl BadSignature"
    by (simp add: example_defs)
  from confirm_bad_key[OF bad, of blog_world blog_request "''discarded.html''"] bad
  show ?thesis by simp
qed

subsection \<open>The deduplication key\<close>

text \<open>
  Claim C4. \<^verbatim>\<open>_comment_exists\<close> answers \<^verbatim>\<open>True\<close> exactly when some stored row has the
  comment's \<^verbatim>\<open>user_name\<close>, \<^verbatim>\<open>user_email\<close> and \<^verbatim>\<open>submit_date\<close>. No other field takes
  part: two comments that agree on these three fields get the same answer, whatever
  their other fields are (and whether they are temporary comments or rows).
\<close>

theorem comment_exists_dedup_key:
  "(comment_exists w comment \<longleftrightarrow>
     (\<exists>r\<in>set (rows w). user_name r = user_name comment
        \<and> user_email r = user_email comment \<and> submit_date r = submit_date comment))
   \<and> (user_name other = user_name comment \<and> user_email other = user_email comment
        \<and> submit_date other = submit_date comment
      \<longrightarrow> comment_exists w other = comment_exists w comment)"
  by (simp add: comment_exists_Bex)

theorem comment_exists_dedup_key_witness:
  "comment_exists blog_world (carol_row\<lparr>comment_text := ''again'', followup := False\<rparr>)
   \<and> \<not> comment_exists blog_world alice_tmp"
  using comment_exists_dedup_key[of blog_world
          "carol_row\<lparr>comment_text := ''again'', followup := False\<rparr>" carol_row]
        comment_exists_dedup_key[of blog_world alice_tmp alice_tmp]
  by (simp add: example_defs)

subsection \<open>Who is notified\<close>

text \<open>
  Claim C5. The claim has commenters on a different object receive no follow-up. The
  query of \<^verbatim>\<open>notify_comment_followers\<close> selects by \<^verbatim>\<open>object_pk\<close> alone, while the same
  function finds the commented object by content type and \<^verbatim>\<open>object_pk\<close>. Bob follows
  photo 1 and has never commented on blog entry 1; when Alice's comment on blog entry 1
  is notified, a follow-up goes to Bob as well as to Carol.
\<close>

theorem notify_reaches_follower_of_other_object:
  "content_type bob_row = ContentType ''photos'' ''photo''
   \<and> content_type alice_row = ContentType ''blog'' ''entry''
   \<and> map recipients (outbox (snd (notify_comment_followers site_env mixed_world alice_row)))
     = [[''bob@example.org''], [''carol@example.org'']]"
  by (simp add: example_defs notify_comment_followers_def previous_comments_def
        followers_of_def followup_mail_def Let_def)

subsection \<open>The hold path\<close>

text \<open>
  Claim C6. On the hold path (the user is not authenticated and
  \<^verbatim>\<open>COMMENTS_XTD_CONFIRM_EMAIL\<close> is \<^verbatim>\<open>True\<close>) no row is created, no follow-up is sent, no
  signal is sent and \<^verbatim>\<open>comment.xtd_comment\<close> is not assigned. When the handler returns, it
  has sent exactly one message: the confirmation request, addressed to
  \<^verbatim>\<open>comment.user_email\<close>, whose context holds the URL reversed from the signed key of the
  comment. It returns whenever the content type and primary key posted with the request
  resolve to a target, and then the new state is the old one with that one message
  added; when a lookup raises, the state is unchanged.
\<close>

theorem hold_path_only_requests_confirmation:
  assumes "\<not> (user comment \<noteq> None \<and> is_authenticated (the (user comment)))"
    and "COMMENTS_XTD_CONFIRM_EMAIL e"
    and "on_comment_was_posted e w comment req = (outcome, attr, w')"
  shows "rows w' = rows w \<and> next_id w' = next_id w \<and> signals_sent w' = signals_sent w
       \<and> attr = None
       \<and> followup_mails (outbox w') = followup_mails (outbox w)
       \<and> (outcome \<noteq> Inr () \<longrightarrow> w' = w)
       \<and> (outcome = Inr () \<longrightarrow>
            (\<exists>message tgt. outbox w' = outbox w @ [message]
               \<and> subject message = ''comment confirmation request''
               \<and> recipients message = [user_email comment]
               \<and> body message = Render default_text_template
                    (ConfirmationContext comment tgt
                       (reverse e ''comments-xtd-confirm''
                          [signed_dumps e comment (COMMENTS_XTD_SALT e)])
                       (DEFAULT_FROM_EMAIL e) (current_site e))))
       \<and> (post_item req ''content_type'' = Inr ctype
            \<and> post_item req ''object_pk'' = Inr pk
            \<and> get_model e (split_on CHR ''.'' ctype) = Inr (Some m)
            \<and> objects_get e m pk = Inr tgt
          \<longrightarrow> outcome = Inr ()
              \<and> w' = w\<lparr>outbox := outbox w @
                   [\<lparr>subject = ''comment confirmation request'',
                     body = Render default_text_template
                       (ConfirmationContext comment tgt
                          (reverse e ''comments-xtd-confirm''
                             [signed_dumps e comment (COMMENTS_XTD_SALT e)])
                          (DEFAULT_FROM_EMAIL e) (current_site e)),
                     from_email = DEFAULT_FROM_EMAIL e,
                     recipients = [user_email comment],
                     alternatives = [(Render default_html_template
                       (ConfirmationContext comment tgt
                          (reverse e ''comments-xtd-confirm''
                             [signed_dumps e comment (COMMENTS_XTD_SALT e)])
                          (DEFAULT_FROM_EMAIL e) (current_site e)), ''text/html'')]\<rparr>]\<rparr>)"
proof -
  have held: "\<not> publish_condition e comment"
    using assms(1,2) by (simp add: publish_condition_def)
  note frame = hold_outcome[OF held assms(3)]
  have sent: "outcome = Inr () \<longrightarrow>
            (\<exists>message tgt. outbox w' = outbox w @ [message]
               \<and> subject message = ''comment confirmation request''
               \<and> recipients message = [user_email comment]
               \<and> body message = Render default_text_template
                    (ConfirmationContext comment tgt
                       (reverse e ''comments-xtd-confirm''
                          [signed_dumps e comment (COMMENTS_XTD_SALT e)])
                       (DEFAULT_FROM_EMAIL e) (current_site e)))"
    using assms(3) unfolding hold_branch[OF held]
    by (auto simp: confirmation_mail_def split: sum.splits option.splits)
  have resolved: "post_item req ''content_type'' = Inr ctype
            \<and> post_item req ''object_pk'' = Inr pk
            \<and> get_model e (split_on CHR ''.'' ctype) = Inr (Some m)
            \<and> objects_get e m pk = Inr tgt
          \<longrightarrow> outcome = Inr ()
              \<and> w' = w\<lparr>outbox := outbox w @ [confirmation_mail e comment tgt]\<rparr>"
    using hold_resolved[OF held, of req ctype pk m tgt w] assms(3) by auto
  from frame sent resolved show ?thesis
    unfolding confirmation_mail_def by blast
qed

theorem hold_path_only_requests_confirmation_witness:
  "\<not> (user alice_tmp \<noteq> None \<and> is_authenticated (the (user alice_tmp)))
   \<and> COMMENTS_XTD_CONFIRM_EMAIL site_env
   \<and> on_comment_was_posted site_env blog_world alice_tmp blog_request =
     (Inr (), None,
      blog_world\<lparr>outbox :=
        [\<lparr>subject = ''comment confirmation request'',
          body = Render ''django_comments_xtd/email_confirmation_request.txt''
            (ConfirmationContext alice_tmp (Target ''entry 1'') ''/comments/confirm/alicesalt''
               ''site@example.org'' ''example.org''),
          from_email = ''site@example.org'',
          recipients = [''alice@example.org''],
          alternatives = [(Render ''django_comments_xtd/email_confirmation_request.html''
            (ConfirmationContext alice_tmp (Target ''entry 1'') ''/comments/confirm/alicesalt''
               ''site@example.org'' ''example.org''), ''text/html'')]\<rparr>]\<rparr>)"
proof -
  obtain outcome attr w' where
    run: "on_comment_was_posted site_env blog_world alice_tmp blog_request = (outcome, attr, w')"
    by (rule prod_cases3)
  have anonymous: "\<not> (user alice_tmp \<noteq> None \<and> is_authenticated (the (user alice_tmp)))"
    by (simp add: example_defs)
  have setting: "COMMENTS_XTD_CONFIRM_EMAIL site_env"
    by (simp add: example_defs)
  have lookups: "post_item blog_request ''content_type'' = Inr ''blog.entry''
      \<and> post_item blog_request ''object_pk'' = Inr ''1''
      \<and> get_model site_env (split_on CHR ''.'' ''blog.entry'')
           = Inr (Some (ModelClass ''blog'' ''entry''))
      \<and> objects_get site_env (ModelClass ''blog'' ''entry'') ''1'' = Inr (Target ''entry 1'')"
    by (simp add: post_item_def example_defs)
  from hold_path_only_requests_confirmation[OF anonymous setting run,
         of "''blog.entry''" "''1''" "ModelClass ''blog'' ''entry''" "Target ''entry 1''"]
       lookups
  have "outcome = Inr () \<and> attr = None
      \<and> w' = blog_world\<lparr>outbox := outbox blog_world @
                   [\<lparr>subject = ''comment confirmation request'',
                     body = Render default_text_template
                       (ConfirmationContext alice_tmp (Target ''entry 1'')
                          (reverse site_env ''comments-xtd-confirm''
                             [signed_dumps site_env alice_tmp (COMMENTS_XTD_SALT site_env)])
                          (DEFAULT_FROM_EMAIL site_env) (current_site site_env)),
                     from_email = DEFAULT_FROM_EMAIL site_env,
                     recipients = [user_email alice_tmp],
                     alternatives = [(Render default_html_template
                       (ConfirmationContext alice_tmp (Target ''entry 1'')
                          (reverse site_env ''comments-xtd-confirm''
                             [signed_dumps site_env alice_tmp (COMMENTS_XTD_SALT site_env)])
                          (DEFAULT_FROM_EMAIL site_env) (current_site site_env)),
                        ''text/html'')]\<rparr>]\<rparr>"
    by blast
  with run anonymous setting show ?thesis
    by (simp add: example_defs default_text_template_def default_html_template_def)
qed

subsection \<open>Posting twice\<close>

text \<open>
  Claim C7. On the publish path, when a row with the comment's \<^verbatim>\<open>user_name\<close>,
  \<^verbatim>\<open>user_email\<close> and \<^verbatim>\<open>submit_date\<close> exists, \<^verbatim>\<open>on_comment_was_posted\<close> returns with the
  state unchanged: no second row, no follow-up. Hence posting is idempotent: handling the
  same comment again in the state the first handling left changes nothing.
\<close>

theorem publish_path_idempotent:
  assumes "publish_condition e comment"
  shows "((\<exists>r\<in>set (rows w). user_name r = user_name comment
              \<and> user_email r = user_email comment \<and> submit_date r = submit_date comment)
          \<longrightarrow> on_comment_was_posted e w comment req = (Inr (), None, w))
       \<and> on_comment_was_posted e (snd (snd (on_comment_was_posted e w comment req))) comment req
           = (Inr (), None, snd (snd (on_comment_was_posted e w comment req)))"
proof -
  let ?w' = "snd (snd (on_comment_was_posted e w comment req))"
  have first: "comment_exists w comment \<Longrightarrow>
      on_comment_was_posted e w comment req = (Inr (), None, w)" for w
    by (simp add: publish_branch[OF assms])
  have "comment_exists ?w' comment"
  proof (cases "comment_exists w comment")
    case True
    then show ?thesis by (simp add: first)
  next
    case False
    then have "rows ?w' = rows w @ [fst (create_comment w comment)]"
      by (simp add: publish_branch[OF assms] notify_rows create_comment_rows)
    then show ?thesis
      by (simp add: comment_exists_Bex create_comment_def Let_def)
  qed
  with first show ?thesis
    unfolding comment_exists_Bex by blast
qed

theorem publish_path_idempotent_witness:
  "publish_condition site_env dave_tmp
   \<and> comment_exists (blog_world\<lparr>rows := [carol_row, dave_row]\<rparr>) dave_tmp
   \<and> on_comment_was_posted site_env (blog_world\<lparr>rows := [carol_row, dave_row]\<rparr>)
        dave_tmp blog_request
       = (Inr (), None, blog_world\<lparr>rows := [carol_row, dave_row]\<rparr>)
   \<and> rows (snd (snd (on_comment_was_posted site_env blog_world dave_tmp blog_request)))
       = [carol_row, dave_row]
   \<and> on_comment_was_posted site_env
        (snd (snd (on_comment_was_posted site_env blog_world dave_tmp blog_request)))
        dave_tmp blog_request
       = (Inr (), None,
          snd (snd (on_comment_was_posted site_env blog_world dave_tmp blog_request)))"
proof -
  have published: "publish_condition site_env dave_tmp"
    by (simp add: publish_condition_def example_defs)
  have stored: "\<exists>r\<in>set (rows (blog_world\<lparr>rows := [carol_row, dave_row]\<rparr>)).
      user_name r = user_name dave_tmp \<and> user_email r = user_email dave_tmp
      \<and> submit_date r = submit_date dave_tmp"
    by (simp add: example_defs)
  have known: "comment_exists (blog_world\<lparr>rows := [carol_row, dave_row]\<rparr>) dave_tmp"
    by (simp add: comment_exists_def example_defs)
  from publish_path_idempotent[OF published,
         of "blog_world\<lparr>rows := [carol_row, dave_row]\<rparr>" blog_request] stored
  have again: "on_comment_was_posted site_env (blog_world\<lparr>rows := [carol_row, dave_row]\<rparr>)
        dave_tmp blog_request
       = (Inr (), None, blog_world\<lparr>rows := [carol_row, dave_row]\<rparr>)"
    by blast
  from publish_path_idempotent[OF published, of blog_world blog_request]
  have twice: "on_comment_was_posted site_env
        (snd (snd (on_comment_was_posted site_env blog_world dave_tmp blog_request)))
        dave_tmp blog_request
       = (Inr (), None,
          snd (snd (on_comment_was_posted site_env blog_world dave_tmp blog_request)))"
    by blast
  have once: "rows (snd (snd (on_comment_was_posted site_env blog_world dave_tmp blog_request)))
       = [carol_row, dave_row]"
    by (simp add: dave_published)
  from published known again once twice show ?thesis
    by blast
qed

subsection \<open>Confirming twice, and discarding\<close>

text \<open>
  Claim C8. When the key decodes to a comment for which a row with the same \<^verbatim>\<open>user_name\<close>,
  \<^verbatim>\<open>user_email\<close> and \<^verbatim>\<open>submit_date\<close> exists, \<^verbatim>\<open>confirm\<close> raises \<^verbatim>\<open>Http404\<close> and the state
  is unchanged: no signal is sent, no message is sent, no comment is created.
\<close>

theorem confirm_already_confirmed:
  assumes "signed_loads e key (COMMENTS_XTD_SALT e) = Inr tmp_comment"
    and "\<exists>r\<in>set (rows w). user_name r = user_name tmp_comment
            \<and> user_email r = user_email tmp_comment \<and> submit_date r = submit_date tmp_comment"
  shows "confirm e w req key template_discarded = (Inl Http404, w)"
  using assms by (simp add: confirm_def comment_exists_Bex)

theorem confirm_already_confirmed_witness:
  "signed_loads site_env ''alicesalt'' (COMMENTS_XTD_SALT site_env) = Inr alice_tmp
   \<and> comment_exists confirmed_world alice_tmp
   \<and> confirm site_env confirmed_world blog_request ''alicesalt'' ''discarded.html''
       = (Inl Http404, confirmed_world)"
proof -
  have good: "signed_loads site_env ''alicesalt'' (COMMENTS_XTD_SALT site_env) = Inr alice_tmp"
    by (simp add: example_defs)
  have known: "\<exists>r\<in>set (rows confirmed_world). user_name r = user_name alice_tmp
        \<and> user_email r = user_email alice_tmp \<and> submit_date r = submit_date alice_tmp"
    by (simp add: example_defs)
  have "comment_exists confirmed_world alice_tmp"
    by (simp add: comment_exists_def example_defs)
  with confirm_already_confirmed[OF good known, of blog_request "''discarded.html''"] good
  show ?thesis by simp
qed

text \<open>
  Claim C9. The comment that \<^verbatim>\<open>_create_comment\<close> returns and stores has \<^verbatim>\<open>is_public\<close> set,
  whatever the temporary comment carried; so every row that \<^verbatim>\<open>on_comment_was_posted\<close> or
  \<^verbatim>\<open>confirm\<close> adds to the table is public.
\<close>

theorem created_comment_is_public:
  "is_public (fst (create_comment w tmp))
   \<and> rows (snd (create_comment w tmp)) = rows w @ [fst (create_comment w tmp)]
   \<and> (\<forall>r\<in>set (rows (snd (snd (on_comment_was_posted e w tmp req)))).
        r \<in> set (rows w) \<or> is_public r)
   \<and> (\<forall>r\<in>set (rows (snd (confirm e w req key template_discarded))).
        r \<in> set (rows w) \<or> is_public r)"
proof (intro conjI)
  show "is_public (fst (create_comment w tmp))"
    by (rule create_comment_fields)
  show "rows (snd (create_comment w tmp)) = rows w @ [fst (create_comment w tmp)]"
    by (rule create_comment_rows)
  show "\<forall>r\<in>set (rows (snd (snd (on_comment_was_posted e w tmp req)))).
        r \<in> set (rows w) \<or> is_public r"
    by (auto simp: on_comment_was_posted_def split_beta notify_rows create_comment_rows
          create_comment_fields send_email_confirmation_request_def Let_def
        split: sum.splits option.splits)
  show "\<forall>r\<in>set (rows (snd (confirm e w req key template_discarded))).
        r \<in> set (rows w) \<or> is_public r"
  proof (cases "signed_loads e key (COMMENTS_XTD_SALT e)")
    case (Inl err)
    then show ?thesis by (simp add: confirm_def)
  next
    case (Inr tmp_comment)
    let ?w1 = "w\<lparr>signals_sent := signals_sent w @ [(tmp_comment, req)]\<rparr>"
    have "rows (snd (confirm e w req key template_discarded)) = rows w
        \<or> rows (snd (confirm e w req key template_discarded))
            = rows w @ [fst (create_comment ?w1 tmp_comment)]"
      using Inr notify_rows(1)[of e "snd (create_comment ?w1 tmp_comment)"
                "fst (create_comment ?w1 tmp_comment)"]
      by (auto simp: confirm_def Let_def split_beta create_comment_rows split: sum.splits)
    then show ?thesis
      using create_comment_fields(1)[of ?w1 tmp_comment] by auto
  qed
qed

theorem created_comment_is_public_witness:
  "\<not> is_public alice_tmp
   \<and> is_public (fst (create_comment blog_world alice_tmp))
   \<and> list_all is_public (rows (snd (confirm site_env blog_world blog_request ''alicesalt''
        ''discarded.html'')))
   \<and> length (rows (snd (confirm site_env blog_world blog_request ''alicesalt''
        ''discarded.html''))) = 2"
  using created_comment_is_public[of blog_world alice_tmp site_env blog_request "''alicesalt''"
          "''discarded.html''"]
  by (simp add: example_defs confirm_def comment_exists_def create_comment_def
        notify_comment_followers_def Let_def list_all_iff)

text \<open>
  Claim C10. When the signal is sent (the key decodes, the comment does not exist yet)
  and some receiver answers \<^verbatim>\<open>False\<close>, \<^verbatim>\<open>confirm\<close> renders the discarded template with
  the temporary comment and returns; the state differs from the initial one only in the
  record that the signal was sent, so no comment is created and no follower is notified.
\<close>

theorem confirm_discarded:
  assumes "signed_loads e key (COMMENTS_XTD_SALT e) = Inr tmp_comment"
    and "\<not> comment_exists w tmp_comment"
    and "\<exists>receiver\<in>set (receivers e). receiver tmp_comment req = PyBool False"
  shows "confirm e w req key template_discarded =
           (Inr (RenderToResponse template_discarded tmp_comment),
            w\<lparr>signals_sent := signals_sent w @ [(tmp_comment, req)]\<rparr>)"
proof -
  from assms(3) have "discarded (map (\<lambda>receiver. receiver tmp_comment req) (receivers e))"
    using not_discarded_iff[of "map (\<lambda>receiver. receiver tmp_comment req) (receivers e)"]
    by force
  with assms(1,2) show ?thesis by (simp add: confirm_def)
qed

theorem confirm_discarded_witness:
  "signed_loads moderated_env ''alicesalt'' (COMMENTS_XTD_SALT moderated_env) = Inr alice_tmp
   \<and> \<not> comment_exists blog_world alice_tmp
   \<and> confirm moderated_env blog_world blog_request ''alicesalt'' ''discarded.html''
       = (Inr (RenderToResponse ''discarded.html'' alice_tmp),
          blog_world\<lparr>signals_sent := [(alice_tmp, blog_request)]\<rparr>)"
proof -
  have good: "signed_loads moderated_env ''alicesalt'' (COMMENTS_XTD_SALT moderated_env)
                = Inr alice_tmp"
    by (simp add: example_defs)
  have fresh: "\<not> comment_exists blog_world alice_tmp"
    by (simp add: comment_exists_def example_defs)
  have refused: "\<exists>receiver\<in>set (receivers moderated_env).
                   receiver alice_tmp blog_request = PyBool False"
    by (simp add: example_defs)
  from confirm_discarded[OF good fresh refused, of "''discarded.html''"] good fresh
  show ?thesis by (simp add: blog_world_def)
qed

end
